theory Spec2Isabelle
  imports Main "HOL-Library.Word"
begin

section \<open>The connection client of backup/app.go\<close>

text \<open>
  The Go type \<open>Client\<close> holds one field per transport kind (\<open>tcpConn\<close>, \<open>udpConn\<close>,
  \<open>serialPort\<close>) and the two fields that cancel the background reader (\<open>isReading\<close>,
  \<open>stopRead\<close>). Every method that writes a field takes the mutex \<open>mu\<close> for its whole
  body, so a method is modelled as one function from the client state to the returned
  value, the new state and the list of calls it made to the outside (sockets, serial
  library, event runtime, channel operations), in program order. What the outside
  answers to a call is an argument of the method (the record \<open>env\<close>), so every theorem
  holds for every behaviour of the operating system. The fields \<open>mu\<close> and \<open>ctx\<close> are not
  part of the state: the mutex is always released on return, and the context is only
  handed to \<open>EventsEmit\<close>. The reader goroutine, which does not take the mutex, is
  modelled by its own steps further down.
\<close>

subsection \<open>Data\<close>

type_synonym handle = nat
type_synonym oserr = string
type_synonym byte = "8 word"
type_synonym UDPAddr = string

datatype conn_kind = TCP | UDP | Serial

text \<open>The constants of the serial library that \<open>getStopBits\<close> and \<open>getParity\<close> return.\<close>

datatype serial_StopBits = OneStopBit | OnePointFiveStopBits | TwoStopBits

datatype serial_Parity = NoParity | OddParity | EvenParity | MarkParity | SpaceParity

record Mode =
  mode_BaudRate :: int
  mode_DataBits :: int
  mode_StopBits :: serial_StopBits
  mode_Parity :: serial_Parity

record TCPConfig =
  tcp_Address :: string

record UDPConfig =
  udp_Address :: string

text \<open>\<open>StopBits\<close>, \<open>Parity\<close> and \<open>FlowControl\<close> are Go string types: any string is a value.\<close>

record SerialConfig =
  PortName :: string
  BaudRate :: int
  DataBits :: int
  StopBits :: string
  Parity :: string
  FlowControl :: string

record SerialPortInfo =
  Name :: string
  Description :: string
  IsOpen :: bool

text \<open>
  The state of the channel that the field \<open>stopRead\<close> refers to. The channel is reached
  through that field only, so its state is kept with the field: \<open>NilChan\<close> is the zero
  value of the field, \<open>make\<close> gives \<open>OpenChan\<close>, \<open>close\<close> gives \<open>ClosedChan\<close>.
\<close>

datatype chan = NilChan | OpenChan | ClosedChan

record Client =
  tcpConn :: "handle option"
  udpConn :: "handle option"
  serialPort :: "handle option"
  isReading :: bool
  stopRead :: chan

text \<open>
  The error values the methods build, one constructor for each message in the source:
  \<open>TCPConnectFailed\<close> (line 103), \<open>UDPResolveFailed\<close> (121), \<open>UDPConnectFailed\<close> (126),
  \<open>SerialOpenFailed\<close> (153), \<open>SerialNotConnected\<close> (216 and 335, the same text),
  \<open>SerialWriteFailed\<close> (221), \<open>SerialCloseFailed\<close> (239), \<open>GetPortsFailed\<close> (251),
  \<open>TCPNotConnected\<close> (321), \<open>UDPNotConnected\<close> (328), \<open>UnknownConnType\<close> (341), and
  \<open>Underlying\<close> for the error of a write that \<open>SendData\<close> returns as it is (324, 331, 338).
\<close>

datatype error =
    TCPConnectFailed oserr
  | UDPResolveFailed oserr
  | UDPConnectFailed oserr
  | SerialOpenFailed oserr
  | SerialNotConnected
  | SerialWriteFailed oserr
  | SerialCloseFailed oserr
  | GetPortsFailed oserr
  | TCPNotConnected
  | UDPNotConnected
  | UnknownConnType string
  | Underlying oserr

text \<open>A call either returns or panics (with deferred unlocking, the state stays as it was
  at the panic).\<close>

datatype 'a outcome = Return 'a | Panic string

datatype payload = NoData | StringData string | BytesData "byte list"

text \<open>The calls a method makes to the outside, recorded in program order.\<close>

datatype effect =
    Dial string
  | ResolveUDPAddr string
  | DialUDP UDPAddr
  | SerialOpen string Mode
  | Close conn_kind handle
  | Write conn_kind handle "byte list"
  | SetReadTimeout handle nat
  | Read handle
  | ChanMake
  | ChanClose
  | Go
  | EventsEmit string payload

text \<open>What the outside answers during one call.\<close>

record env =
  net_Dial :: "string \<Rightarrow> oserr + handle"
  net_ResolveUDPAddr :: "string \<Rightarrow> oserr + UDPAddr"
  net_DialUDP :: "UDPAddr \<Rightarrow> oserr + handle"
  serial_Open :: "string \<Rightarrow> Mode \<Rightarrow> oserr + handle"
  sys_Close :: "conn_kind \<Rightarrow> handle \<Rightarrow> oserr option"
  sys_Write :: "conn_kind \<Rightarrow> handle \<Rightarrow> byte list \<Rightarrow> oserr option"
  port_Read :: "handle \<Rightarrow> byte list \<times> oserr option"
  serial_GetPortsList :: "oserr + string list"

type_synonym result = "error option outcome \<times> Client \<times> effect list"

subsection \<open>Operations\<close>

definition NewClient :: Client where
  "NewClient = \<lparr>tcpConn = None, udpConn = None, serialPort = None,
                 isReading = False, stopRead = NilChan\<rparr>"

definition getStopBits :: "string \<Rightarrow> serial_StopBits" where
  "getStopBits stopBits =
     (if stopBits = ''1'' then OneStopBit
      else if stopBits = ''1.5'' then OnePointFiveStopBits
      else if stopBits = ''2'' then TwoStopBits
      else OneStopBit)"

definition getParity :: "string \<Rightarrow> serial_Parity" where
  "getParity parity =
     (if parity = ''N'' then NoParity
      else if parity = ''O'' then OddParity
      else if parity = ''E'' then EvenParity
      else if parity = ''M'' then MarkParity
      else if parity = ''S'' then SpaceParity
      else NoParity)"

text \<open>\<open>close\<close> of a channel panics on a nil channel and on a closed one.\<close>

definition stopSerialRead :: "Client \<Rightarrow> unit outcome \<times> Client \<times> effect list" where
  "stopSerialRead c =
     (if isReading c then
        (let c1 = c\<lparr>isReading := False\<rparr> in
         case stopRead c1 of
           OpenChan \<Rightarrow> (Return (), c1\<lparr>stopRead := ClosedChan\<rparr>, [ChanClose])
         | NilChan \<Rightarrow> (Panic ''close of nil channel'', c1, [])
         | ClosedChan \<Rightarrow> (Panic ''close of closed channel'', c1, []))
      else (Return (), c, []))"

text \<open>\<open>startSerialRead\<close> makes a new channel, sets the flag and starts the reader
  goroutine (the effect \<open>Go\<close>); the steps of the goroutine are \<open>reader_step\<close> below.\<close>

definition startSerialRead :: "Client \<Rightarrow> Client \<times> effect list" where
  "startSerialRead c = (c\<lparr>stopRead := OpenChan, isReading := True\<rparr>, [ChanMake, Go])"

definition ConnectTCP :: "TCPConfig \<Rightarrow> env \<Rightarrow> Client \<Rightarrow> result" where
  "ConnectTCP config env a =
     (let fx = (case tcpConn a of Some old \<Rightarrow> [Close TCP old] | None \<Rightarrow> [])
      in case net_Dial env (tcp_Address config) of
           Inl err \<Rightarrow> (Return (Some (TCPConnectFailed err)), a, fx @ [Dial (tcp_Address config)])
         | Inr conn \<Rightarrow> (Return None, a\<lparr>tcpConn := Some conn\<rparr>, fx @ [Dial (tcp_Address config)]))"

definition ConnectUDP :: "UDPConfig \<Rightarrow> env \<Rightarrow> Client \<Rightarrow> result" where
  "ConnectUDP config env a =
     (let fx = (case udpConn a of Some old \<Rightarrow> [Close UDP old] | None \<Rightarrow> [])
      in case net_ResolveUDPAddr env (udp_Address config) of
           Inl err \<Rightarrow>
             (Return (Some (UDPResolveFailed err)), a, fx @ [ResolveUDPAddr (udp_Address config)])
         | Inr addr \<Rightarrow>
             (case net_DialUDP env addr of
                Inl err \<Rightarrow>
                  (Return (Some (UDPConnectFailed err)), a,
                   fx @ [ResolveUDPAddr (udp_Address config), DialUDP addr])
              | Inr conn \<Rightarrow>
                  (Return None, a\<lparr>udpConn := Some conn\<rparr>,
                   fx @ [ResolveUDPAddr (udp_Address config), DialUDP addr])))"

definition serialMode :: "SerialConfig \<Rightarrow> Mode" where
  "serialMode config =
     \<lparr>mode_BaudRate = BaudRate config, mode_DataBits = DataBits config,
      mode_StopBits = getStopBits (StopBits config), mode_Parity = getParity (Parity config)\<rparr>"

text \<open>Lines 139 to 142 of \<open>ConnectSerial\<close>: the previous port is stopped and closed, the
  result of \<open>Close\<close> is dropped, and the field \<open>serialPort\<close> keeps the old handle.\<close>

definition closePrevious :: "Client \<Rightarrow> unit outcome \<times> Client \<times> effect list" where
  "closePrevious c =
     (case serialPort c of
        None \<Rightarrow> (Return (), c, [])
      | Some old \<Rightarrow>
          (case stopSerialRead c of
             (Panic m, c1, fx) \<Rightarrow> (Panic m, c1, fx)
           | (Return u, c1, fx) \<Rightarrow> (Return (), c1, fx @ [Close Serial old])))"

definition ConnectSerial :: "SerialConfig \<Rightarrow> env \<Rightarrow> Client \<Rightarrow> result" where
  "ConnectSerial config env c =
     (case closePrevious c of
        (Panic m, c1, fx) \<Rightarrow> (Panic m, c1, fx)
      | (Return u, c1, fx) \<Rightarrow>
          (case serial_Open env (PortName config) (serialMode config) of
             Inl err \<Rightarrow>
               (Return (Some (SerialOpenFailed err)), c1,
                fx @ [SerialOpen (PortName config) (serialMode config)])
           | Inr port \<Rightarrow>
               (case startSerialRead (c1\<lparr>serialPort := Some port\<rparr>) of
                  (c2, fx2) \<Rightarrow>
                    (Return None, c2,
                     fx @ [SerialOpen (PortName config) (serialMode config)] @ fx2
                        @ [EventsEmit ''serial:connected'' (StringData (PortName config))]))))"

definition WriteSerial :: "byte list \<Rightarrow> env \<Rightarrow> Client \<Rightarrow> result" where
  "WriteSerial data env c =
     (case serialPort c of
        None \<Rightarrow> (Return (Some SerialNotConnected), c, [])
      | Some port \<Rightarrow>
          (case sys_Write env Serial port data of
             Some err \<Rightarrow> (Return (Some (SerialWriteFailed err)), c, [Write Serial port data])
           | None \<Rightarrow> (Return None, c, [Write Serial port data])))"

definition CloseSerial :: "env \<Rightarrow> Client \<Rightarrow> result" where
  "CloseSerial env c =
     (case serialPort c of
        None \<Rightarrow> (Return None, c, [])
      | Some port \<Rightarrow>
          (case stopSerialRead c of
             (Panic m, c1, fx) \<Rightarrow> (Panic m, c1, fx)
           | (Return u, c1, fx) \<Rightarrow>
               (case sys_Close env Serial port of
                  Some err \<Rightarrow>
                    (Return (Some (SerialCloseFailed err)), c1, fx @ [Close Serial port])
                | None \<Rightarrow>
                    (Return None, c1\<lparr>serialPort := None\<rparr>,
                     fx @ [Close Serial port, EventsEmit ''serial:disconnected'' NoData]))))"

text \<open>\<open>isCurrentPort\<close> does not look at its argument (line 273 returns true).\<close>

definition isCurrentPort :: "Client \<Rightarrow> string \<Rightarrow> bool" where
  "isCurrentPort c portName = (if serialPort c = None then False else True)"

definition getPortDescription :: "string \<Rightarrow> string" where
  "getPortDescription portName = portName"

definition GetSerialPorts :: "env \<Rightarrow> Client \<Rightarrow> error + SerialPortInfo list" where
  "GetSerialPorts env c =
     (case serial_GetPortsList env of
        Inl err \<Rightarrow> Inl (GetPortsFailed err)
      | Inr ports \<Rightarrow>
          Inr (map (\<lambda>port. \<lparr>Name = port, Description = getPortDescription port,
                            IsOpen = (serialPort c \<noteq> None \<and> isCurrentPort c port)\<rparr>) ports))"

definition SendData :: "string \<Rightarrow> byte list \<Rightarrow> env \<Rightarrow> Client \<Rightarrow> result" where
  "SendData connType data env a =
     (if connType = ''tcp'' then
        (case tcpConn a of
           None \<Rightarrow> (Return (Some TCPNotConnected), a, [])
         | Some conn \<Rightarrow>
             (Return (map_option Underlying (sys_Write env TCP conn data)), a,
              [Write TCP conn data]))
      else if connType = ''udp'' then
        (case udpConn a of
           None \<Rightarrow> (Return (Some UDPNotConnected), a, [])
         | Some conn \<Rightarrow>
             (Return (map_option Underlying (sys_Write env UDP conn data)), a,
              [Write UDP conn data]))
      else if connType = ''serial'' then
        (case serialPort a of
           None \<Rightarrow> (Return (Some SerialNotConnected), a, [])
         | Some port \<Rightarrow>
             (Return (map_option Underlying (sys_Write env Serial port data)), a,
              [Write Serial port data]))
      else (Return (Some (UnknownConnType connType)), a, []))"

text \<open>\<open>Close\<close> of the client (called \<open>CloseAll\<close> below, \<open>Close\<close> being the effect) returns
  nothing; it never calls \<open>stopSerialRead\<close>.\<close>

definition CloseAll :: "Client \<Rightarrow> Client \<times> effect list" where
  "CloseAll a =
     (let (a1, fx1) = (case tcpConn a of
                         Some conn \<Rightarrow> (a\<lparr>tcpConn := None\<rparr>, [Close TCP conn])
                       | None \<Rightarrow> (a, []));
          (a2, fx2) = (case udpConn a1 of
                         Some conn \<Rightarrow> (a1\<lparr>udpConn := None\<rparr>, [Close UDP conn])
                       | None \<Rightarrow> (a1, []));
          (a3, fx3) = (case serialPort a2 of
                         Some port \<Rightarrow> (a2\<lparr>serialPort := None\<rparr>, [Close Serial port])
                       | None \<Rightarrow> (a2, []))
      in (a3, fx1 @ fx2 @ fx3))"

subsection \<open>The reader goroutine\<close>

text \<open>
  The goroutine started by \<open>startSerialRead\<close> (lines 169 to 195) does not take the mutex
  and reads the fields of the client afresh at every use, so it is modelled by steps that
  each read one field:
  \<^item> \<open>AtLoop\<close>: the loop condition \<open>c.isReading\<close> (line 171);
  \<^item> \<open>AtSelect\<close>: the \<open>select\<close> on \<open>c.stopRead\<close> (lines 172 to 175); a receive from a
    closed channel is ready, one from an open or nil channel is not, so \<open>default\<close> runs;
  \<^item> \<open>AtNilTest\<close>: the test \<open>c.serialPort == nil\<close> (line 176);
  \<^item> \<open>AtSetReadTimeout\<close>: the call \<open>c.serialPort.SetReadTimeout\<close> (line 181);
  \<^item> \<open>AtRead\<close>: the call \<open>c.serialPort.Read\<close> with the 1024 byte buffer (line 183); an
    error continues the loop, \<open>n > 0\<close> bytes lead to \<open>AtEmit\<close>;
  \<^item> \<open>AtEmit\<close>: the call of \<open>EventsEmit\<close> with \<open>buffer[:n]\<close> (line 191).
  A method call on the field when it has become nil in the meantime is a nil dereference:
  the goroutine panics (\<open>Crashed\<close>), and a panic in a goroutine ends the process. The
  goroutine never writes a field of the client.
\<close>

datatype reader =
    AtLoop | AtSelect | AtNilTest | AtSetReadTimeout | AtRead | AtEmit "byte list"
  | Exited | Crashed

definition reader_step :: "env \<Rightarrow> Client \<Rightarrow> reader \<Rightarrow> reader \<times> effect list" where
  "reader_step env c pc =
     (case pc of
        AtLoop \<Rightarrow> (if isReading c then (AtSelect, []) else (Exited, []))
      | AtSelect \<Rightarrow> (if stopRead c = ClosedChan then (Exited, []) else (AtNilTest, []))
      | AtNilTest \<Rightarrow> (if serialPort c = None then (Exited, []) else (AtSetReadTimeout, []))
      | AtSetReadTimeout \<Rightarrow>
          (case serialPort c of
             None \<Rightarrow> (Crashed, [])
           | Some port \<Rightarrow> (AtRead, [SetReadTimeout port 100]))
      | AtRead \<Rightarrow>
          (case serialPort c of
             None \<Rightarrow> (Crashed, [])
           | Some port \<Rightarrow>
               (case port_Read env port of
                  (data, Some err) \<Rightarrow> (AtLoop, [Read port])
                | (data, None) \<Rightarrow>
                    (if length (take 1024 data) > 0
                     then (AtEmit (take 1024 data), [Read port])
                     else (AtLoop, [Read port]))))
      | AtEmit buf \<Rightarrow> (AtLoop, [EventsEmit ''serial:data'' (BytesData buf)])
      | Exited \<Rightarrow> (Exited, [])
      | Crashed \<Rightarrow> (Crashed, []))"

subsection \<open>The caller and the reader together\<close>

text \<open>
  \<open>ConnectSerial\<close> starts the goroutine at line 157 and emits \<open>serial:connected\<close> at line
  160, so the goroutine can run between the two. \<open>ConnectSerial_to_157\<close> is the method up
  to and including line 157 and \<open>ConnectSerial_from_160\<close> the rest; lemma
  \<open>ConnectSerial_split\<close> shows that one after the other is \<open>ConnectSerial\<close>.
\<close>

datatype stage = Finished result | Started Client "effect list"

definition ConnectSerial_to_157 :: "SerialConfig \<Rightarrow> env \<Rightarrow> Client \<Rightarrow> stage" where
  "ConnectSerial_to_157 config env c =
     (case closePrevious c of
        (Panic m, c1, fx) \<Rightarrow> Finished (Panic m, c1, fx)
      | (Return u, c1, fx) \<Rightarrow>
          (case serial_Open env (PortName config) (serialMode config) of
             Inl err \<Rightarrow>
               Finished (Return (Some (SerialOpenFailed err)), c1,
                         fx @ [SerialOpen (PortName config) (serialMode config)])
           | Inr port \<Rightarrow>
               (case startSerialRead (c1\<lparr>serialPort := Some port\<rparr>) of
                  (c2, fx2) \<Rightarrow>
                    Started c2 (fx @ [SerialOpen (PortName config) (serialMode config)] @ fx2))))"

definition ConnectSerial_from_160 :: "SerialConfig \<Rightarrow> Client \<Rightarrow> effect list \<Rightarrow> result" where
  "ConnectSerial_from_160 config c fx =
     (Return None, c, fx @ [EventsEmit ''serial:connected'' (StringData (PortName config))])"

text \<open>
  A system is the client, the goroutines started so far, the caller's position (idle, or
  inside \<open>ConnectSerial\<close> between lines 157 and 160) and everything done so far. An
  action is one scheduling decision; \<open>exec\<close> is \<open>None\<close> when the action cannot be taken
  (a goroutine has panicked and ended the process, the caller is inside a call, or
  there is no such goroutine).
\<close>

datatype caller = Idle | InConnectSerial SerialConfig

record system =
  client :: Client
  readers :: "reader list"
  caller :: caller
  done_fx :: "effect list"

datatype action =
    BeginConnectSerial SerialConfig env
  | EndConnectSerial
  | CallCloseSerial env
  | ReaderStep nat env

definition exec :: "action \<Rightarrow> system \<Rightarrow> system option" where
  "exec a s =
     (if Crashed \<in> set (readers s) then None else
      case a of
        BeginConnectSerial config env \<Rightarrow>
          (if caller s \<noteq> Idle then None
           else case ConnectSerial_to_157 config env (client s) of
                  Finished (r, c, fx) \<Rightarrow> Some (s\<lparr>client := c, done_fx := done_fx s @ fx\<rparr>)
                | Started c fx \<Rightarrow>
                    Some (s\<lparr>client := c, readers := readers s @ [AtLoop],
                            caller := InConnectSerial config, done_fx := done_fx s @ fx\<rparr>))
      | EndConnectSerial \<Rightarrow>
          (case caller s of
             Idle \<Rightarrow> None
           | InConnectSerial config \<Rightarrow>
               (case ConnectSerial_from_160 config (client s) [] of
                  (r, c, fx) \<Rightarrow> Some (s\<lparr>client := c, caller := Idle, done_fx := done_fx s @ fx\<rparr>)))
      | CallCloseSerial env \<Rightarrow>
          (if caller s \<noteq> Idle then None
           else case CloseSerial env (client s) of
                  (r, c, fx) \<Rightarrow> Some (s\<lparr>client := c, done_fx := done_fx s @ fx\<rparr>))
      | ReaderStep i env \<Rightarrow>
          (if i < length (readers s) then
             (case reader_step env (client s) (readers s ! i) of
                (pc, fx) \<Rightarrow> Some (s\<lparr>readers := (readers s)[i := pc], done_fx := done_fx s @ fx\<rparr>))
           else None))"

fun run :: "action list \<Rightarrow> system \<Rightarrow> system option" where
  "run [] s = Some s"
| "run (a # as) s = (case exec a s of None \<Rightarrow> None | Some s' \<Rightarrow> run as s')"

definition init :: system where
  "init = \<lparr>client = NewClient, readers = [], caller = Idle, done_fx = []\<rparr>"

text \<open>What the notification sink receives: the \<open>EventsEmit\<close> calls, in order.\<close>

fun is_emit :: "effect \<Rightarrow> bool" where
  "is_emit (EventsEmit topic p) = True"
| "is_emit e = False"

definition sink :: "effect list \<Rightarrow> effect list" where
  "sink fx = filter is_emit fx"

subsection \<open>Notions used in the statements\<close>

text \<open>The error classes of the specification (its section 7) and the class of each error
  value of the source, by the meaning of its message.\<close>

datatype err_class =
    OpenFailed | NotConnected | WrongTransport | UnknownTransportKind
  | WriteFailed | CloseFailed | EnumerationFailed

fun spec_class :: "error \<Rightarrow> err_class" where
  "spec_class (TCPConnectFailed e) = OpenFailed"
| "spec_class (UDPResolveFailed e) = OpenFailed"
| "spec_class (UDPConnectFailed e) = OpenFailed"
| "spec_class (SerialOpenFailed e) = OpenFailed"
| "spec_class SerialNotConnected = NotConnected"
| "spec_class TCPNotConnected = NotConnected"
| "spec_class UDPNotConnected = NotConnected"
| "spec_class (SerialWriteFailed e) = WriteFailed"
| "spec_class (Underlying e) = WriteFailed"
| "spec_class (SerialCloseFailed e) = CloseFailed"
| "spec_class (GetPortsFailed e) = EnumerationFailed"
| "spec_class (UnknownConnType k) = UnknownTransportKind"

text \<open>How many of the three session fields are non-empty.\<close>

definition active_sessions :: "Client \<Rightarrow> nat" where
  "active_sessions c = length (filter (\<lambda>f. f \<noteq> None) [serialPort c, tcpConn c, udpConn c])"

text \<open>The flag \<open>isReading\<close> is set only together with a fresh channel and cleared only
  together with its close: in every state the methods can reach, a set flag means an
  open channel.\<close>

definition chan_ok :: "Client \<Rightarrow> bool" where
  "chan_ok c = (if isReading c then stopRead c = OpenChan else True)"

subsection \<open>Concrete inputs\<close>

definition com3 :: SerialConfig where
  "com3 = \<lparr>PortName = ''COM3'', BaudRate = 9600, DataBits = 8, StopBits = ''1'',
           Parity = ''N'', FlowControl = ''none''\<rparr>"

definition com3_mode :: Mode where
  "com3_mode = \<lparr>mode_BaudRate = 9600, mode_DataBits = 8, mode_StopBits = OneStopBit,
                mode_Parity = NoParity\<rparr>"

text \<open>A world where every call succeeds, the device has the bytes 0x41 0x42 ready and
  two ports are listed.\<close>

definition world_ok :: env where
  "world_ok = \<lparr>net_Dial = (\<lambda>addr. Inr 10), net_ResolveUDPAddr = (\<lambda>addr. Inr addr),
               net_DialUDP = (\<lambda>addr. Inr 20), serial_Open = (\<lambda>name mode. Inr 30),
               sys_Close = (\<lambda>k h. None), sys_Write = (\<lambda>k h d. None),
               port_Read = (\<lambda>h. ([0x41, 0x42], None)),
               serial_GetPortsList = Inr [''COM1'', ''COM3'']\<rparr>"

text \<open>A world where the device is gone: opening fails, and writing to or closing a
  handle fails.\<close>

definition world_gone :: env where
  "world_gone = \<lparr>net_Dial = (\<lambda>addr. Inl ''refused''), net_ResolveUDPAddr = (\<lambda>addr. Inr addr),
                 net_DialUDP = (\<lambda>addr. Inl ''refused''),
                 serial_Open = (\<lambda>name mode. Inl ''no such port''),
                 sys_Close = (\<lambda>k h. Some ''port closed''),
                 sys_Write = (\<lambda>k h d. Some ''port closed''),
                 port_Read = (\<lambda>h. ([], Some ''port closed'')),
                 serial_GetPortsList = Inl ''unsupported''\<rparr>"

text \<open>A world where every call succeeds and every open gives a handle that no client
  below holds yet.\<close>

definition world_fresh :: env where
  "world_fresh = \<lparr>net_Dial = (\<lambda>addr. Inr 11), net_ResolveUDPAddr = (\<lambda>addr. Inr addr),
                  net_DialUDP = (\<lambda>addr. Inr 21), serial_Open = (\<lambda>name mode. Inr 31),
                  sys_Close = (\<lambda>k h. None), sys_Write = (\<lambda>k h d. None),
                  port_Read = (\<lambda>h. ([0x43], None)),
                  serial_GetPortsList = Inr [''COM1'', ''COM3'']\<rparr>"

text \<open>The client after \<open>ConnectSerial com3\<close> has succeeded on a new client
  (lemma \<open>serial_open_reached\<close>).\<close>

definition serial_open :: Client where
  "serial_open = \<lparr>tcpConn = None, udpConn = None, serialPort = Some 30,
                  isReading = True, stopRead = OpenChan\<rparr>"

text \<open>A client with a TCP session only, as after \<open>ConnectTCP\<close> on a new client.\<close>

definition tcp_open :: Client where
  "tcp_open = \<lparr>tcpConn = Some 10, udpConn = None, serialPort = None,
               isReading = False, stopRead = NilChan\<rparr>"

section \<open>Properties\<close>

subsection \<open>Helper facts\<close>

lemma ConnectSerial_split:
  "ConnectSerial config env c =
     (case ConnectSerial_to_157 config env c of
        Finished r \<Rightarrow> r
      | Started c2 fx \<Rightarrow> ConnectSerial_from_160 config c2 fx)"
  by (simp add: ConnectSerial_def ConnectSerial_to_157_def ConnectSerial_from_160_def
      split: prod.splits outcome.splits sum.splits)

lemma serial_open_reached:
  "ConnectSerial com3 world_ok NewClient =
     (Return None, serial_open,
      [SerialOpen ''COM3'' com3_mode, ChanMake, Go,
       EventsEmit ''serial:connected'' (StringData ''COM3'')])"
  by (simp add: ConnectSerial_def closePrevious_def NewClient_def world_ok_def com3_def
      serialMode_def com3_mode_def getStopBits_def getParity_def startSerialRead_def
      serial_open_def)

lemma tcp_open_reached:
  "ConnectTCP \<lparr>tcp_Address = ''10.0.0.1:502''\<rparr> world_ok NewClient =
     (Return None, tcp_open, [Dial ''10.0.0.1:502''])"
  by (simp add: ConnectTCP_def NewClient_def world_ok_def tcp_open_def)

text \<open>The invariant \<open>chan_ok\<close> holds for a new client and is kept by every method; under
  it no method panics.\<close>

lemma chan_ok_NewClient: "chan_ok NewClient"
  by (simp add: chan_ok_def NewClient_def)

lemma chan_ok_stopSerialRead:
  "chan_ok c \<Longrightarrow> \<exists>c1 fx. stopSerialRead c = (Return (), c1, fx) \<and> chan_ok c1 \<and> \<not> isReading c1
      \<and> serialPort c1 = serialPort c \<and> tcpConn c1 = tcpConn c \<and> udpConn c1 = udpConn c"
  by (auto simp: chan_ok_def stopSerialRead_def Let_def split: chan.splits if_splits)

lemma chan_ok_ConnectTCP: "chan_ok a \<Longrightarrow> chan_ok (fst (snd (ConnectTCP config env a)))"
  by (simp add: chan_ok_def ConnectTCP_def Let_def split: sum.splits)

lemma chan_ok_ConnectUDP: "chan_ok a \<Longrightarrow> chan_ok (fst (snd (ConnectUDP config env a)))"
  by (simp add: chan_ok_def ConnectUDP_def Let_def split: sum.splits)

lemma chan_ok_closePrevious:
  assumes "chan_ok c"
  shows "\<exists>c1 fx. closePrevious c = (Return (), c1, fx) \<and> chan_ok c1"
proof (cases "serialPort c")
  case None
  with assms show ?thesis by (simp add: closePrevious_def)
next
  case (Some old)
  from chan_ok_stopSerialRead [OF assms] obtain c1 fx
    where "stopSerialRead c = (Return (), c1, fx)" and "chan_ok c1" by blast
  with Some show ?thesis by (simp add: closePrevious_def)
qed

lemma closePrevious_chan_ok:
  assumes "chan_ok c"
  shows "closePrevious c
      = (Return (),
         (case serialPort c of
            Some old \<Rightarrow> (if isReading c then c\<lparr>isReading := False, stopRead := ClosedChan\<rparr> else c)
          | None \<Rightarrow> c),
         (case serialPort c of
            Some old \<Rightarrow> (if isReading c then [ChanClose] else []) @ [Close Serial old]
          | None \<Rightarrow> []))"
  using assms
  by (simp add: closePrevious_def stopSerialRead_def chan_ok_def Let_def
      split: option.splits if_splits)

lemma chan_ok_ConnectSerial:
  assumes "chan_ok c"
  shows "\<exists>r c2 fx. ConnectSerial config env c = (Return r, c2, fx) \<and> chan_ok c2"
proof -
  from chan_ok_closePrevious [OF assms] obtain c1 fx
    where prev: "closePrevious c = (Return (), c1, fx)" and ok: "chan_ok c1" by blast
  show ?thesis
  proof (cases "serial_Open env (PortName config) (serialMode config)")
    case (Inl err)
    with prev ok show ?thesis by (simp add: ConnectSerial_def)
  next
    case (Inr port)
    with prev show ?thesis by (simp add: ConnectSerial_def startSerialRead_def chan_ok_def)
  qed
qed

lemma chan_ok_CloseSerial:
  assumes "chan_ok c"
  shows "\<exists>r c1 fx. CloseSerial env c = (Return r, c1, fx) \<and> chan_ok c1"
proof (cases "serialPort c")
  case None
  with assms show ?thesis by (simp add: CloseSerial_def)
next
  case (Some port)
  from chan_ok_stopSerialRead [OF assms] obtain c1 fx
    where stop: "stopSerialRead c = (Return (), c1, fx)" and ok: "chan_ok c1" by blast
  from ok have "chan_ok (c1\<lparr>serialPort := None\<rparr>)" by (simp add: chan_ok_def)
  with Some stop ok show ?thesis
    by (cases "sys_Close env Serial port") (simp_all add: CloseSerial_def)
qed

lemma chan_ok_WriteSerial: "chan_ok c \<Longrightarrow> chan_ok (fst (snd (WriteSerial data env c)))"
  by (simp add: WriteSerial_def split: option.splits)

lemma chan_ok_SendData: "chan_ok a \<Longrightarrow> chan_ok (fst (snd (SendData k data env a)))"
  by (simp add: SendData_def split: option.splits)

lemma chan_ok_CloseAll: "chan_ok a \<Longrightarrow> chan_ok (fst (CloseAll a))"
  by (simp add: CloseAll_def chan_ok_def split: option.splits)

lemma CloseSerial_after_return:
  assumes "CloseSerial env1 c = (Return r1, c1, fx1)"
  shows "serialPort c1 = None \<or> \<not> isReading c1"
  using assms
  by (auto simp: CloseSerial_def stopSerialRead_def Let_def
      split: option.splits chan.splits if_splits)

subsection \<open>Configuration enums\<close>

text \<open>
  Claim C9. \<open>getStopBits\<close> and \<open>getParity\<close> are total functions into the constants of
  the serial library (their result type has no error value): each recognised string
  gives its constant, every other stop-bits string gives one stop bit and every other
  parity string gives no parity.
\<close>

theorem enum_mapping_total:
  "(stopBits \<notin> {''1'', ''1.5'', ''2''} \<longrightarrow> getStopBits stopBits = OneStopBit)
   \<and> (parity \<notin> {''N'', ''O'', ''E'', ''M'', ''S''} \<longrightarrow> getParity parity = NoParity)
   \<and> getStopBits ''1'' = OneStopBit
   \<and> getStopBits ''1.5'' = OnePointFiveStopBits
   \<and> getStopBits ''2'' = TwoStopBits
   \<and> getParity ''N'' = NoParity
   \<and> getParity ''O'' = OddParity
   \<and> getParity ''E'' = EvenParity
   \<and> getParity ''M'' = MarkParity
   \<and> getParity ''S'' = SpaceParity"
  by (simp add: getStopBits_def getParity_def)

theorem enum_mapping_total_witness:
  "''3'' \<notin> {''1'', ''1.5'', ''2''} \<and> getStopBits ''3'' = OneStopBit
   \<and> ''X'' \<notin> {''N'', ''O'', ''E'', ''M'', ''S''} \<and> getParity ''X'' = NoParity"
  using enum_mapping_total [of "''3''" "''X''"] by simp

subsection \<open>WriteSerial\<close>

text \<open>
  Claim C7. For every byte slice, every state and every behaviour of the port:
  without a serial session \<open>WriteSerial\<close> returns the not-connected error, changes
  nothing and calls nothing; with a serial session it makes exactly one call, \<open>Write\<close>
  on that port with the bytes as given, and returns nil when the write succeeds and the
  write-failed error carrying the transport's error when it fails. In both cases it
  returns (it does not panic) and leaves the state as it was.
\<close>

theorem WriteSerial_contract:
  "(serialPort c = None \<longrightarrow>
      WriteSerial data env c = (Return (Some SerialNotConnected), c, [])
      \<and> spec_class SerialNotConnected = NotConnected)
   \<and> (\<forall>port. serialPort c = Some port \<longrightarrow>
        (\<exists>r. WriteSerial data env c = (Return r, c, [Write Serial port data])
           \<and> (case sys_Write env Serial port data of
                None \<Rightarrow> r = None
              | Some err \<Rightarrow> r = Some (SerialWriteFailed err)
                           \<and> spec_class (SerialWriteFailed err) = WriteFailed)))"
  by (simp add: WriteSerial_def split: option.splits)

theorem WriteSerial_contract_witness:
  "serialPort NewClient = None
   \<and> WriteSerial [0x01, 0x02] world_ok NewClient = (Return (Some SerialNotConnected), NewClient, [])
   \<and> serialPort serial_open = Some 30
   \<and> WriteSerial [0x01, 0x02] world_ok serial_open
       = (Return None, serial_open, [Write Serial 30 [0x01, 0x02]])
   \<and> WriteSerial [0x01, 0x02] world_gone serial_open
       = (Return (Some (SerialWriteFailed ''port closed'')), serial_open,
          [Write Serial 30 [0x01, 0x02]])"
  using WriteSerial_contract [of NewClient "[0x01, 0x02]" world_ok]
    WriteSerial_contract [of serial_open "[0x01, 0x02]" world_ok]
    WriteSerial_contract [of serial_open "[0x01, 0x02]" world_gone]
  by (simp add: NewClient_def serial_open_def world_ok_def world_gone_def)

text \<open>
  Claim C10. \<open>WriteSerial\<close> looks at the serial field only: in every state with a TCP or
  a UDP session and no serial session, for every byte slice, it returns the
  not-connected error and makes no call at all, so nothing is written to the TCP or UDP
  session.
\<close>

theorem WriteSerial_ignores_tcp_udp:
  "serialPort c = None \<Longrightarrow> tcpConn c \<noteq> None \<or> udpConn c \<noteq> None \<Longrightarrow>
     WriteSerial data env c = (Return (Some SerialNotConnected), c, [])
     \<and> spec_class SerialNotConnected = NotConnected"
  by (simp add: WriteSerial_def)

theorem WriteSerial_ignores_tcp_udp_witness:
  "serialPort tcp_open = None \<and> tcpConn tcp_open = Some 10
   \<and> WriteSerial [0x01, 0x02] world_ok tcp_open = (Return (Some SerialNotConnected), tcp_open, [])"
proof -
  have h1: "serialPort tcp_open = None" by (simp add: tcp_open_def)
  have h2: "tcpConn tcp_open \<noteq> None \<or> udpConn tcp_open \<noteq> None" by (simp add: tcp_open_def)
  show ?thesis using h1 h2 WriteSerial_ignores_tcp_udp [OF h1 h2, of "[0x01, 0x02]" world_ok]
    by (simp add: tcp_open_def)
qed

subsection \<open>Connect\<close>

text \<open>
  Claim C1, as stated, fails. \<open>ConnectTCP\<close> on a client that holds a serial session
  succeeds without closing that session or stopping its reader: afterwards the serial
  field and the TCP field are both non-empty, so more than one session field is
  non-empty after a Connect.
\<close>

theorem one_session_counterexample:
  "ConnectTCP \<lparr>tcp_Address = ''10.0.0.1:502''\<rparr> world_ok serial_open
     = (Return None, serial_open\<lparr>tcpConn := Some 10\<rparr>, [Dial ''10.0.0.1:502''])
   \<and> serialPort (serial_open\<lparr>tcpConn := Some 10\<rparr>) = Some 30
   \<and> tcpConn (serial_open\<lparr>tcpConn := Some 10\<rparr>) = Some 10
   \<and> \<not> active_sessions (serial_open\<lparr>tcpConn := Some 10\<rparr>) \<le> 1"
  by (simp add: ConnectTCP_def world_ok_def serial_open_def active_sessions_def)

text \<open>
  Claim C1, amended. Each Connect operation replaces the session of its own kind only.
  For every state and every behaviour of the outside:
  \<^item> \<open>ConnectTCP\<close> first closes the TCP connection it holds, if any, then dials. When
    the dial succeeds it returns nil and the TCP field holds the dialled connection;
    when it fails it returns the connect error. Nothing else changes.
  \<^item> \<open>ConnectUDP\<close> first closes the UDP connection it holds, if any, then resolves the
    address and dials. When both succeed it returns nil and the UDP field holds the
    dialled connection; otherwise it returns the resolve or connect error. Nothing else
    changes.
  \<^item> \<open>ConnectSerial\<close>, in a state with \<open>chan_ok\<close> (every state the methods reach), when
    it holds a serial port first retires the cancellation state (if \<open>isReading\<close> is set
    it clears the flag and closes the channel), then closes the held port, then opens
    the new one; when it holds no port it opens at once. When the open succeeds it
    returns nil, the serial field holds the opened port, a new channel is made, the flag
    is set, a reader goroutine is started and \<open>serial:connected\<close> is emitted; when it
    fails it returns the open error and emits nothing. In every state it leaves the TCP
    and UDP fields as they were.
  The fields of different kinds can therefore be non-empty together. After a failed open
  every field is as it was after the close.
\<close>

theorem Connect_replaces_own_kind:
  "(\<forall>conn. net_Dial env (tcp_Address tc) = Inr conn \<longrightarrow>
      ConnectTCP tc env a
        = (Return None, a\<lparr>tcpConn := Some conn\<rparr>,
           (case tcpConn a of Some old \<Rightarrow> [Close TCP old] | None \<Rightarrow> [])
             @ [Dial (tcp_Address tc)]))
   \<and> (\<forall>err. net_Dial env (tcp_Address tc) = Inl err \<longrightarrow>
      ConnectTCP tc env a
        = (Return (Some (TCPConnectFailed err)), a,
           (case tcpConn a of Some old \<Rightarrow> [Close TCP old] | None \<Rightarrow> [])
             @ [Dial (tcp_Address tc)]))
   \<and> (\<forall>addr conn. net_ResolveUDPAddr env (udp_Address uc) = Inr addr \<longrightarrow>
        net_DialUDP env addr = Inr conn \<longrightarrow>
      ConnectUDP uc env a
        = (Return None, a\<lparr>udpConn := Some conn\<rparr>,
           (case udpConn a of Some old \<Rightarrow> [Close UDP old] | None \<Rightarrow> [])
             @ [ResolveUDPAddr (udp_Address uc), DialUDP addr]))
   \<and> (\<forall>err. net_ResolveUDPAddr env (udp_Address uc) = Inl err \<longrightarrow>
      ConnectUDP uc env a
        = (Return (Some (UDPResolveFailed err)), a,
           (case udpConn a of Some old \<Rightarrow> [Close UDP old] | None \<Rightarrow> [])
             @ [ResolveUDPAddr (udp_Address uc)]))
   \<and> (\<forall>addr err. net_ResolveUDPAddr env (udp_Address uc) = Inr addr \<longrightarrow>
        net_DialUDP env addr = Inl err \<longrightarrow>
      ConnectUDP uc env a
        = (Return (Some (UDPConnectFailed err)), a,
           (case udpConn a of Some old \<Rightarrow> [Close UDP old] | None \<Rightarrow> [])
             @ [ResolveUDPAddr (udp_Address uc), DialUDP addr]))
   \<and> (chan_ok a \<longrightarrow>
        (\<forall>port. serial_Open env (PortName sc) (serialMode sc) = Inr port \<longrightarrow>
           ConnectSerial sc env a
             = (Return None,
                \<lparr>tcpConn = tcpConn a, udpConn = udpConn a, serialPort = Some port,
                 isReading = True, stopRead = OpenChan\<rparr>,
                (case serialPort a of
                   Some old \<Rightarrow> (if isReading a then [ChanClose] else []) @ [Close Serial old]
                 | None \<Rightarrow> [])
                  @ [SerialOpen (PortName sc) (serialMode sc), ChanMake, Go,
                     EventsEmit ''serial:connected'' (StringData (PortName sc))]))
        \<and> (\<forall>err. serial_Open env (PortName sc) (serialMode sc) = Inl err \<longrightarrow>
           ConnectSerial sc env a
             = (Return (Some (SerialOpenFailed err)),
                (case serialPort a of
                   Some old \<Rightarrow>
                     (if isReading a then a\<lparr>isReading := False, stopRead := ClosedChan\<rparr> else a)
                 | None \<Rightarrow> a),
                (case serialPort a of
                   Some old \<Rightarrow> (if isReading a then [ChanClose] else []) @ [Close Serial old]
                 | None \<Rightarrow> [])
                  @ [SerialOpen (PortName sc) (serialMode sc)])))
   \<and> tcpConn (fst (snd (ConnectSerial sc env a))) = tcpConn a
   \<and> udpConn (fst (snd (ConnectSerial sc env a))) = udpConn a"
proof (intro conjI allI impI)
  fix conn
  assume "net_Dial env (tcp_Address tc) = Inr conn"
  then show "ConnectTCP tc env a
        = (Return None, a\<lparr>tcpConn := Some conn\<rparr>,
           (case tcpConn a of Some old \<Rightarrow> [Close TCP old] | None \<Rightarrow> [])
             @ [Dial (tcp_Address tc)])"
    by (simp add: ConnectTCP_def)
next
  fix err
  assume "net_Dial env (tcp_Address tc) = Inl err"
  then show "ConnectTCP tc env a
        = (Return (Some (TCPConnectFailed err)), a,
           (case tcpConn a of Some old \<Rightarrow> [Close TCP old] | None \<Rightarrow> [])
             @ [Dial (tcp_Address tc)])"
    by (simp add: ConnectTCP_def)
next
  fix addr conn
  assume "net_ResolveUDPAddr env (udp_Address uc) = Inr addr"
    and "net_DialUDP env addr = Inr conn"
  then show "ConnectUDP uc env a
        = (Return None, a\<lparr>udpConn := Some conn\<rparr>,
           (case udpConn a of Some old \<Rightarrow> [Close UDP old] | None \<Rightarrow> [])
             @ [ResolveUDPAddr (udp_Address uc), DialUDP addr])"
    by (simp add: ConnectUDP_def)
next
  fix err
  assume "net_ResolveUDPAddr env (udp_Address uc) = Inl err"
  then show "ConnectUDP uc env a
        = (Return (Some (UDPResolveFailed err)), a,
           (case udpConn a of Some old \<Rightarrow> [Close UDP old] | None \<Rightarrow> [])
             @ [ResolveUDPAddr (udp_Address uc)])"
    by (simp add: ConnectUDP_def)
next
  fix addr err
  assume "net_ResolveUDPAddr env (udp_Address uc) = Inr addr"
    and "net_DialUDP env addr = Inl err"
  then show "ConnectUDP uc env a
        = (Return (Some (UDPConnectFailed err)), a,
           (case udpConn a of Some old \<Rightarrow> [Close UDP old] | None \<Rightarrow> [])
             @ [ResolveUDPAddr (udp_Address uc), DialUDP addr])"
    by (simp add: ConnectUDP_def)
next
  fix port
  assume ok: "chan_ok a"
    and opened: "serial_Open env (PortName sc) (serialMode sc) = Inr port"
  show "ConnectSerial sc env a
             = (Return None,
                \<lparr>tcpConn = tcpConn a, udpConn = udpConn a, serialPort = Some port,
                 isReading = True, stopRead = OpenChan\<rparr>,
                (case serialPort a of
                   Some old \<Rightarrow> (if isReading a then [ChanClose] else []) @ [Close Serial old]
                 | None \<Rightarrow> [])
                  @ [SerialOpen (PortName sc) (serialMode sc), ChanMake, Go,
                     EventsEmit ''serial:connected'' (StringData (PortName sc))])"
    using closePrevious_chan_ok [OF ok] opened
    by (simp add: ConnectSerial_def startSerialRead_def split: option.splits)
next
  fix err
  assume ok: "chan_ok a"
    and failed: "serial_Open env (PortName sc) (serialMode sc) = Inl err"
  show "ConnectSerial sc env a
             = (Return (Some (SerialOpenFailed err)),
                (case serialPort a of
                   Some old \<Rightarrow>
                     (if isReading a then a\<lparr>isReading := False, stopRead := ClosedChan\<rparr> else a)
                 | None \<Rightarrow> a),
                (case serialPort a of
                   Some old \<Rightarrow> (if isReading a then [ChanClose] else []) @ [Close Serial old]
                 | None \<Rightarrow> [])
                  @ [SerialOpen (PortName sc) (serialMode sc)])"
    using closePrevious_chan_ok [OF ok] failed
    by (simp add: ConnectSerial_def)
next
  show "tcpConn (fst (snd (ConnectSerial sc env a))) = tcpConn a"
    by (simp add: ConnectSerial_def closePrevious_def stopSerialRead_def startSerialRead_def
        Let_def split: option.splits chan.splits sum.splits)
next
  show "udpConn (fst (snd (ConnectSerial sc env a))) = udpConn a"
    by (simp add: ConnectSerial_def closePrevious_def stopSerialRead_def startSerialRead_def
        Let_def split: option.splits chan.splits sum.splits)
qed

theorem Connect_replaces_own_kind_witness:
  "ConnectTCP \<lparr>tcp_Address = ''10.0.0.1:503''\<rparr> world_fresh (serial_open\<lparr>tcpConn := Some 10\<rparr>)
     = (Return None, serial_open\<lparr>tcpConn := Some 11\<rparr>, [Close TCP 10, Dial ''10.0.0.1:503''])
   \<and> ConnectTCP \<lparr>tcp_Address = ''10.0.0.1:503''\<rparr> world_gone NewClient
     = (Return (Some (TCPConnectFailed ''refused'')), NewClient, [Dial ''10.0.0.1:503''])
   \<and> ConnectUDP \<lparr>udp_Address = ''10.0.0.1:69''\<rparr> world_fresh (tcp_open\<lparr>udpConn := Some 20\<rparr>)
     = (Return None, tcp_open\<lparr>udpConn := Some 21\<rparr>,
        [Close UDP 20, ResolveUDPAddr ''10.0.0.1:69'', DialUDP ''10.0.0.1:69''])
   \<and> ConnectUDP \<lparr>udp_Address = ''10.0.0.1:69''\<rparr> world_gone tcp_open
     = (Return (Some (UDPConnectFailed ''refused'')), tcp_open,
        [ResolveUDPAddr ''10.0.0.1:69'', DialUDP ''10.0.0.1:69''])
   \<and> ConnectUDP \<lparr>udp_Address = ''nowhere''\<rparr>
        (world_gone\<lparr>net_ResolveUDPAddr := (\<lambda>addr. Inl ''no such host'')\<rparr>) tcp_open
     = (Return (Some (UDPResolveFailed ''no such host'')), tcp_open, [ResolveUDPAddr ''nowhere''])
   \<and> chan_ok (serial_open\<lparr>tcpConn := Some 10\<rparr>)
   \<and> ConnectSerial com3 world_fresh (serial_open\<lparr>tcpConn := Some 10\<rparr>)
     = (Return None, serial_open\<lparr>tcpConn := Some 10, serialPort := Some 31\<rparr>,
        [ChanClose, Close Serial 30, SerialOpen ''COM3'' com3_mode, ChanMake, Go,
         EventsEmit ''serial:connected'' (StringData ''COM3'')])
   \<and> chan_ok tcp_open
   \<and> ConnectSerial com3 world_gone tcp_open
     = (Return (Some (SerialOpenFailed ''no such port'')), tcp_open,
        [SerialOpen ''COM3'' com3_mode])"
  using Connect_replaces_own_kind [of world_fresh "\<lparr>tcp_Address = ''10.0.0.1:503''\<rparr>"
      "serial_open\<lparr>tcpConn := Some 10\<rparr>" "\<lparr>udp_Address = ''10.0.0.1:69''\<rparr>" com3]
    Connect_replaces_own_kind [of world_gone "\<lparr>tcp_Address = ''10.0.0.1:503''\<rparr>"
      NewClient "\<lparr>udp_Address = ''10.0.0.1:69''\<rparr>" com3]
    Connect_replaces_own_kind [of world_fresh "\<lparr>tcp_Address = ''10.0.0.1:503''\<rparr>"
      "tcp_open\<lparr>udpConn := Some 20\<rparr>" "\<lparr>udp_Address = ''10.0.0.1:69''\<rparr>" com3]
    Connect_replaces_own_kind [of world_gone "\<lparr>tcp_Address = ''10.0.0.1:503''\<rparr>"
      tcp_open "\<lparr>udp_Address = ''10.0.0.1:69''\<rparr>" com3]
    Connect_replaces_own_kind [of "world_gone\<lparr>net_ResolveUDPAddr := (\<lambda>addr. Inl ''no such host'')\<rparr>"
      "\<lparr>tcp_Address = ''10.0.0.1:503''\<rparr>" tcp_open "\<lparr>udp_Address = ''nowhere''\<rparr>" com3]
  by (simp add: world_fresh_def world_gone_def serial_open_def tcp_open_def NewClient_def
      chan_ok_def com3_def com3_mode_def serialMode_def getStopBits_def getParity_def)

subsection \<open>SendData\<close>

text \<open>
  Claim C2, as stated, fails. \<open>SendData\<close> with kind tcp while only a serial session is
  active returns the error "TCP not connected", the same error as on a client with no
  session at all; its class is not-connected, not wrong-transport. (It writes nothing,
  as claimed.)
\<close>

theorem SendData_wrong_transport_counterexample:
  "SendData ''tcp'' [0x01, 0x02] world_ok serial_open
     = (Return (Some TCPNotConnected), serial_open, [])
   \<and> SendData ''tcp'' [0x01, 0x02] world_ok NewClient
     = (Return (Some TCPNotConnected), NewClient, [])
   \<and> spec_class TCPNotConnected = NotConnected
   \<and> spec_class TCPNotConnected \<noteq> WrongTransport"
  by (simp add: SendData_def serial_open_def NewClient_def)

text \<open>
  Claim C2, amended. For each kind string tcp, udp, serial and every data slice,
  \<open>SendData\<close> fails with the not-connected error of that kind whenever the field of the
  requested kind is empty, whether or not a session of another kind is active, and then
  writes nothing and changes nothing; for every other kind string it fails with the
  unknown-kind error and writes nothing. No error that \<open>SendData\<close> returns is of the
  class wrong-transport.
\<close>

theorem SendData_by_kind:
  "(tcpConn a = None \<longrightarrow>
      SendData ''tcp'' data env a = (Return (Some TCPNotConnected), a, []))
   \<and> (udpConn a = None \<longrightarrow>
      SendData ''udp'' data env a = (Return (Some UDPNotConnected), a, []))
   \<and> (serialPort a = None \<longrightarrow>
      SendData ''serial'' data env a = (Return (Some SerialNotConnected), a, []))
   \<and> spec_class TCPNotConnected = NotConnected
   \<and> spec_class UDPNotConnected = NotConnected
   \<and> spec_class SerialNotConnected = NotConnected
   \<and> (k \<notin> {''tcp'', ''udp'', ''serial''} \<longrightarrow>
      SendData k data env a = (Return (Some (UnknownConnType k)), a, [])
      \<and> spec_class (UnknownConnType k) = UnknownTransportKind)
   \<and> (\<forall>e a' fx. SendData k data env a = (Return (Some e), a', fx) \<longrightarrow>
        spec_class e \<noteq> WrongTransport)"
  by (auto simp: SendData_def split: option.splits if_splits)

theorem SendData_by_kind_witness:
  "tcpConn serial_open = None \<and> udpConn serial_open = None \<and> serialPort tcp_open = None
   \<and> SendData ''tcp'' [0x01, 0x02] world_ok serial_open
       = (Return (Some TCPNotConnected), serial_open, [])
   \<and> SendData ''udp'' [0x01, 0x02] world_ok serial_open
       = (Return (Some UDPNotConnected), serial_open, [])
   \<and> SendData ''serial'' [0x01, 0x02] world_ok tcp_open
       = (Return (Some SerialNotConnected), tcp_open, [])
   \<and> ''ble'' \<notin> {''tcp'', ''udp'', ''serial''}
   \<and> SendData ''ble'' [0x01, 0x02] world_ok serial_open
       = (Return (Some (UnknownConnType ''ble'')), serial_open, [])"
  using SendData_by_kind [of serial_open "[0x01, 0x02]" world_ok "''ble''"]
    SendData_by_kind [of tcp_open "[0x01, 0x02]" world_ok "''ble''"]
  by (simp add: serial_open_def tcp_open_def)

subsection \<open>ConnectSerial when the device cannot be opened\<close>

text \<open>
  Claim C3, evaluated where the code departs from it. On a client with an open serial
  session (handle 30, reader running), \<open>ConnectSerial\<close> whose open fails stops the
  reader, closes handle 30, returns the open error and emits nothing, but the field
  \<open>serialPort\<close> still holds handle 30: lines 139 to 142 close the old port without
  clearing the field, as \<open>CloseSerial\<close> (line 242) and \<open>Close\<close> (line 360) do. The
  following \<open>WriteSerial\<close> therefore calls \<open>Write\<close> on the closed handle and returns the
  write-failed error instead of the not-connected error.
\<close>

theorem ConnectSerial_failed_open_keeps_port:
  "ConnectSerial com3 world_gone serial_open
     = (Return (Some (SerialOpenFailed ''no such port'')),
        serial_open\<lparr>isReading := False, stopRead := ClosedChan\<rparr>,
        [ChanClose, Close Serial 30, SerialOpen ''COM3'' com3_mode])
   \<and> serialPort (serial_open\<lparr>isReading := False, stopRead := ClosedChan\<rparr>) = Some 30
   \<and> WriteSerial [0x01, 0x02] world_gone (serial_open\<lparr>isReading := False, stopRead := ClosedChan\<rparr>)
     = (Return (Some (SerialWriteFailed ''port closed'')),
        serial_open\<lparr>isReading := False, stopRead := ClosedChan\<rparr>,
        [Write Serial 30 [0x01, 0x02]])"
  by (simp add: ConnectSerial_def closePrevious_def stopSerialRead_def WriteSerial_def
      world_gone_def serial_open_def com3_def com3_mode_def serialMode_def getStopBits_def
      getParity_def)

subsection \<open>GetSerialPorts\<close>

text \<open>
  Claim C4, evaluated where the code departs from it. With a serial session open and
  the enumerator listing COM1 and COM3, \<open>GetSerialPorts\<close> marks both descriptors open:
  \<open>isCurrentPort\<close> returns true for every name once a port is open (the comparison is
  left as a TODO at line 273), so the flag does not single out the open device.
\<close>

theorem GetSerialPorts_marks_every_port:
  "GetSerialPorts world_ok serial_open
     = Inr [\<lparr>Name = ''COM1'', Description = ''COM1'', IsOpen = True\<rparr>,
            \<lparr>Name = ''COM3'', Description = ''COM3'', IsOpen = True\<rparr>]"
  by (simp add: GetSerialPorts_def isCurrentPort_def getPortDescription_def world_ok_def
      serial_open_def)

subsection \<open>CloseSerial\<close>

text \<open>
  Claim C8. \<open>CloseSerial\<close> without a serial session returns nil, changes nothing and
  calls nothing. For every state and every behaviour of the port in the two calls:
  when a first \<open>CloseSerial\<close> has returned, a second one returns too (no panic), does not
  close the channel again and leaves the cancellation state as it is; it is a no-op
  returning nil when the first call returned nil; and the only error it can return is
  the close-failed error, and only when the first call returned that error too. When
  the port behaves in the second call as in the first, the second call returns what the
  first returned and leaves the state as the first left it. In every state the methods
  can reach, the first call returns as well.
\<close>

theorem CloseSerial_twice:
  "(serialPort c = None \<longrightarrow> CloseSerial env c = (Return None, c, []))
   \<and> (\<forall>r1 c1 fx1. CloseSerial env1 c = (Return r1, c1, fx1) \<longrightarrow>
        (\<exists>r2 c2 fx2. CloseSerial env2 c1 = (Return r2, c2, fx2)
           \<and> ChanClose \<notin> set fx2
           \<and> isReading c2 = isReading c1 \<and> stopRead c2 = stopRead c1
           \<and> (r1 = None \<longrightarrow> r2 = None \<and> c2 = c1 \<and> fx2 = [])
           \<and> (r2 \<noteq> None \<longrightarrow>
                (\<exists>e1 e2. r1 = Some (SerialCloseFailed e1) \<and> r2 = Some (SerialCloseFailed e2))))
        \<and> (\<exists>fx2. CloseSerial env1 c1 = (Return r1, c1, fx2)))
   \<and> (chan_ok c \<longrightarrow> (\<exists>r1 c1 fx1. CloseSerial env1 c = (Return r1, c1, fx1)))"
proof (intro conjI allI impI)
  assume "serialPort c = None"
  then show "CloseSerial env c = (Return None, c, [])"
    by (simp add: CloseSerial_def)
next
  fix r1 c1 fx1
  assume first: "CloseSerial env1 c = (Return r1, c1, fx1)"
  show "\<exists>r2 c2 fx2. CloseSerial env2 c1 = (Return r2, c2, fx2)
           \<and> ChanClose \<notin> set fx2
           \<and> isReading c2 = isReading c1 \<and> stopRead c2 = stopRead c1
           \<and> (r1 = None \<longrightarrow> r2 = None \<and> c2 = c1 \<and> fx2 = [])
           \<and> (r2 \<noteq> None \<longrightarrow>
                (\<exists>e1 e2. r1 = Some (SerialCloseFailed e1) \<and> r2 = Some (SerialCloseFailed e2)))"
  proof (cases "serialPort c1")
    case None
    then show ?thesis
      by (simp add: CloseSerial_def)
  next
    case (Some port)
    with CloseSerial_after_return [OF first] have idle: "\<not> isReading c1" by simp
    from first Some obtain e1 where r1: "r1 = Some (SerialCloseFailed e1)"
      by (auto simp: CloseSerial_def stopSerialRead_def Let_def
          split: option.splits chan.splits if_splits)
    show ?thesis
      using Some idle r1
      by (cases "sys_Close env2 Serial port") (simp_all add: CloseSerial_def stopSerialRead_def)
  qed
next
  fix r1 c1 fx1
  assume first: "CloseSerial env1 c = (Return r1, c1, fx1)"
  show "\<exists>fx2. CloseSerial env1 c1 = (Return r1, c1, fx2)"
  proof (cases "serialPort c")
    case None
    with first show ?thesis by (auto simp: CloseSerial_def)
  next
    case (Some port)
    show ?thesis
    proof (cases "sys_Close env1 Serial port")
      case None
      with first Some show ?thesis
        by (auto simp: CloseSerial_def stopSerialRead_def Let_def
            split: chan.splits if_splits)
    next
      case (Some err)
      with first \<open>serialPort c = Some port\<close> show ?thesis
        by (auto simp: CloseSerial_def stopSerialRead_def Let_def
            split: chan.splits if_splits)
    qed
  qed
next
  assume "chan_ok c"
  then show "\<exists>r1 c1 fx1. CloseSerial env1 c = (Return r1, c1, fx1)"
    using chan_ok_CloseSerial [of c env1] by blast
qed

theorem CloseSerial_twice_witness:
  "CloseSerial world_ok serial_open
     = (Return None, serial_open\<lparr>serialPort := None, isReading := False, stopRead := ClosedChan\<rparr>,
        [ChanClose, Close Serial 30, EventsEmit ''serial:disconnected'' NoData])
   \<and> CloseSerial world_ok
        (serial_open\<lparr>serialPort := None, isReading := False, stopRead := ClosedChan\<rparr>)
     = (Return None, serial_open\<lparr>serialPort := None, isReading := False, stopRead := ClosedChan\<rparr>, [])
   \<and> CloseSerial world_gone serial_open
     = (Return (Some (SerialCloseFailed ''port closed'')),
        serial_open\<lparr>isReading := False, stopRead := ClosedChan\<rparr>, [ChanClose, Close Serial 30])
   \<and> CloseSerial world_gone (serial_open\<lparr>isReading := False, stopRead := ClosedChan\<rparr>)
     = (Return (Some (SerialCloseFailed ''port closed'')),
        serial_open\<lparr>isReading := False, stopRead := ClosedChan\<rparr>, [Close Serial 30])
   \<and> chan_ok serial_open"
  using CloseSerial_twice [of serial_open world_ok world_ok world_ok]
    CloseSerial_twice [of serial_open world_gone world_gone world_gone]
  by (simp add: CloseSerial_def stopSerialRead_def serial_open_def world_ok_def world_gone_def
      chan_ok_def)

subsection \<open>Close of the client\<close>

text \<open>
  Claim C6, evaluated where the code departs from it. \<open>Close\<close> of the client (lines 346
  to 362) on a client with an open serial session and a running reader closes the port
  without calling \<open>stopSerialRead\<close>, which \<open>ConnectSerial\<close> (line 140) and \<open>CloseSerial\<close>
  (line 236) call before they close the port: afterwards no serial session is held,
  yet \<open>isReading\<close> is still set and the channel \<open>stopRead\<close> is still open.
\<close>

theorem CloseAll_keeps_reading_flag:
  "CloseAll serial_open = (serial_open\<lparr>serialPort := None\<rparr>, [Close Serial 30])
   \<and> isReading (serial_open\<lparr>serialPort := None\<rparr>) = True
   \<and> stopRead (serial_open\<lparr>serialPort := None\<rparr>) = OpenChan
   \<and> serialPort (serial_open\<lparr>serialPort := None\<rparr>) = None"
  by (simp add: CloseAll_def serial_open_def)

subsection \<open>Order of notifications\<close>

text \<open>
  Claim C5, evaluated where the code departs from it. The reader goroutine is started
  at line 157, before \<open>serial:connected\<close> is emitted at line 160, and \<open>CloseSerial\<close> signals
  the goroutine without waiting for it. In the first schedule the goroutine reads and
  emits \<open>serial:data\<close> between lines 157 and 160, so the sink receives the data before
  \<open>serial:connected\<close>. In the second schedule the goroutine has read two bytes when
  \<open>CloseSerial\<close> runs, and emits them after \<open>serial:disconnected\<close>.
\<close>

theorem reader_races_with_notifications:
  "map_option (\<lambda>s. sink (done_fx s))
     (run [BeginConnectSerial com3 world_ok,
           ReaderStep 0 world_ok, ReaderStep 0 world_ok, ReaderStep 0 world_ok,
           ReaderStep 0 world_ok, ReaderStep 0 world_ok, ReaderStep 0 world_ok,
           EndConnectSerial] init)
     = Some [EventsEmit ''serial:data'' (BytesData [0x41, 0x42]),
             EventsEmit ''serial:connected'' (StringData ''COM3'')]
   \<and> map_option (\<lambda>s. sink (done_fx s))
     (run [BeginConnectSerial com3 world_ok, EndConnectSerial,
           ReaderStep 0 world_ok, ReaderStep 0 world_ok, ReaderStep 0 world_ok,
           ReaderStep 0 world_ok, ReaderStep 0 world_ok,
           CallCloseSerial world_ok, ReaderStep 0 world_ok] init)
     = Some [EventsEmit ''serial:connected'' (StringData ''COM3''),
             EventsEmit ''serial:disconnected'' NoData,
             EventsEmit ''serial:data'' (BytesData [0x41, 0x42])]"
  by (simp add: exec_def init_def NewClient_def ConnectSerial_to_157_def
      ConnectSerial_from_160_def closePrevious_def startSerialRead_def reader_step_def
      CloseSerial_def stopSerialRead_def sink_def world_ok_def com3_def)

text \<open>The same race can end the process: a reader that has passed the nil test when
  \<open>CloseSerial\<close> clears the field calls \<open>SetReadTimeout\<close> on nil and panics.\<close>

lemma reader_crash_after_close:
  "map_option readers
     (run [BeginConnectSerial com3 world_ok, EndConnectSerial,
           ReaderStep 0 world_ok, ReaderStep 0 world_ok, ReaderStep 0 world_ok,
           CallCloseSerial world_ok, ReaderStep 0 world_ok] init)
     = Some [Crashed]"
  by (simp add: exec_def init_def NewClient_def ConnectSerial_to_157_def
      ConnectSerial_from_160_def closePrevious_def startSerialRead_def reader_step_def
      CloseSerial_def stopSerialRead_def world_ok_def com3_def)

end
